theory Spec2Isabelle
  imports Complex_Main "HOL-Library.Word"
begin

section \<open>The ST boundary mapper of the QP spline speed optimizer\<close>

text \<open>
  A shallow embedding of
  \<^verbatim>\<open>modules/planning/optimizer/qp_spline_st_speed/qp_spline_st_boundary_mapper.cc\<close>.

  Conventions of the embedding:
  \<^item> a C++ \<^verbatim>\<open>double\<close> is a \<^typ>\<open>real\<close>: no rounding, no NaN, no infinities, so
    \<^verbatim>\<open>std::fmax\<close>, \<^verbatim>\<open>std::fmin\<close> and \<^verbatim>\<open>std::fabs\<close> are \<^const>\<open>max\<close>, \<^const>\<open>min\<close> and
    \<^const>\<open>abs\<close>;
  \<^item> the output vector the functions append to is passed in and returned;
  \<^item> a pointer that may be null is an \<^typ>\<open>'a option\<close>;
  \<^item> the loop counters declared \<^verbatim>\<open>uint32_t\<close> are \<^typ>\<open>32 word\<close>, the \<^verbatim>\<open>int64_t\<close>
    indices of the overlap search are \<^typ>\<open>int\<close> (they stay between \<open>-1\<close> and the
    number of path points);
  \<^item> the two loops of the prediction-trajectory builder, which need not end, are
    \<^theory_text>\<open>partial_function (option)\<close>: \<^const>\<open>None\<close> is a call that never returns;
  \<^item> logging (\<^verbatim>\<open>AERROR\<close>, \<^verbatim>\<open>AWARN\<close>, \<^verbatim>\<open>AINFO\<close>) has no effect on the result and is
    left out, and so are the parameters a function never reads
    (\<^verbatim>\<open>initial_planning_point\<close> in all of them, \<^verbatim>\<open>planning_distance\<close> and \<^verbatim>\<open>planning_time\<close>
    in \<^verbatim>\<open>map_obstacle_with_prediction_trajectory\<close>).
\<close>

subsection \<open>Data\<close>

datatype ErrorCode = OK | PLANNING_ERROR | PLANNING_SKIP

text \<open>\<^verbatim>\<open>apollo::common::Status\<close>: an error code and a message; \<^verbatim>\<open>==\<close> compares both.\<close>

record Status =
  status_code :: ErrorCode
  error_message :: string

definition Status_OK :: Status where
  "Status_OK = \<lparr>status_code = OK, error_message = ''''\<rparr>"

definition mk_Status :: "ErrorCode \<Rightarrow> string \<Rightarrow> Status" where
  "mk_Status c m = \<lparr>status_code = c, error_message = m\<rparr>"

definition ok :: "Status \<Rightarrow> bool" where
  "ok st = (status_code st = OK)"

record STPoint =
  pt_s :: real
  pt_t :: real

definition mk_STPoint :: "real \<Rightarrow> real \<Rightarrow> STPoint" where
  "mk_STPoint s t = \<lparr>pt_s = s, pt_t = t\<rparr>"

datatype BoundaryType = STOP | FOLLOW | YIELD | OVERTAKE | UNKNOWN

record StGraphBoundary =
  points :: "STPoint list"
  boundary_type :: BoundaryType
  characteristic_length :: real

type_synonym Vec2d = "real \<times> real"

record SLPoint =
  sl_s :: real
  sl_l :: real

record PathPoint =
  pp_x :: real
  pp_y :: real
  pp_theta :: real
  pp_s :: real

text \<open>\<^verbatim>\<open>path_data.path()\<close>: the path points in order; \<^verbatim>\<open>num_of_points()\<close> is the length.\<close>

type_synonym PathData = "PathPoint list"

record Box2d =
  box_center :: Vec2d
  box_heading :: real
  box_length :: real
  box_width :: real

record TrajectoryPoint =
  path_point :: PathPoint
  relative_time :: real

record PredictionTrajectory =
  start_timestamp :: real
  trajectory_points :: "TrajectoryPoint list"

text \<open>
  \<^verbatim>\<open>ObjectDecisionType\<close>: the decision attached to an obstacle, probed in the source with
  \<^verbatim>\<open>has_follow()\<close>, \<^verbatim>\<open>has_yield()\<close>, \<^verbatim>\<open>has_overtake()\<close>; each of the three carries its
  \<^verbatim>\<open>distance_s\<close>. Every other kind is \<open>ObjectOther\<close>.
\<close>

datatype ObjectDecisionType =
  ObjectFollow real | ObjectYield real | ObjectOvertake real | ObjectOther

fun has_follow :: "ObjectDecisionType \<Rightarrow> bool" where
  "has_follow (ObjectFollow d) = True"
| "has_follow _ = False"

fun has_yield :: "ObjectDecisionType \<Rightarrow> bool" where
  "has_yield (ObjectYield d) = True"
| "has_yield _ = False"

fun has_overtake :: "ObjectDecisionType \<Rightarrow> bool" where
  "has_overtake (ObjectOvertake d) = True"
| "has_overtake _ = False"

record Obstacle =
  obstacle_id :: string
  Speed :: real
  Length :: real
  Width :: real
  prediction_trajectories :: "PredictionTrajectory list"
  Decisions :: "ObjectDecisionType list"

record MainStop =
  enforced_line_lane_id :: string
  enforced_line_distance_s :: real

datatype MainDecision = MainDecisionStop MainStop | MainDecisionMissionComplete | MainDecisionOther

text \<open>The obstacle vectors hold pointers, which the mapper tests against \<^verbatim>\<open>nullptr\<close>.\<close>

record DecisionData =
  main_decision :: MainDecision
  StaticObstacles :: "Obstacle option list"
  DynamicObstacles :: "Obstacle option list"

record ReferenceLine =
  get_point_in_Frenet_frame :: "Vec2d \<Rightarrow> SLPoint option"
  reference_length :: real

text \<open>
  What the mapper reads from outside the file: the gflags, the vehicle parameters, the
  \<^verbatim>\<open>st_boundary_config()\<close> values, the timestamp of the \<^verbatim>\<open>VehicleState\<close> singleton, the map
  lookup of the stop builder (\<^verbatim>\<open>MakeMapId\<close>, \<^verbatim>\<open>get_lane_by_id\<close>, \<^verbatim>\<open>get_smooth_point\<close> in one
  function), and the two members of the mapper's base class that this file calls but
  does not define, \<^verbatim>\<open>get_area\<close> and \<^verbatim>\<open>check_overlap\<close> (the latter with the vehicle
  parameters it is always given). \<open>ctor_characteristic_length\<close> is the characteristic
  length a freshly constructed \<^verbatim>\<open>StGraphBoundary\<close> has. All of them are parameters of
  the model: a theorem below that speaks of an environment \<open>env\<close> holds for each value of
  them.
\<close>

record Environment =
  FLAGS_backward_routing_distance :: real
  FLAGS_decision_valid_stop_range :: real
  front_edge_to_center :: real
  boundary_buffer :: real
  follow_buffer :: real
  point_extension :: real
  expending_coeff :: real
  minimal_follow_time :: real
  success_tunnel :: real
  vehicle_state_timestamp :: real
  ctor_characteristic_length :: real
  lane_smooth_point :: "string \<Rightarrow> real \<Rightarrow> Vec2d"
  get_area :: "STPoint list \<Rightarrow> real"
  check_overlap :: "PathPoint \<Rightarrow> Box2d \<Rightarrow> real \<Rightarrow> bool"

text \<open>
  Modelled from the spec: \<^verbatim>\<open>Double::compare\<close> of \<^verbatim>\<open>modules/planning/math/double.h\<close>, which
  is not part of this file. The specification reads \<^verbatim>\<open>Double::compare(x, 0.0) < 0\<close> as
  "\<open>x\<close> is negative" and \<^verbatim>\<open>Double::compare(area, 0.0) <= 0\<close> as "the area is
  non-positive": a three-way comparison.
\<close>

definition Double_compare :: "real \<Rightarrow> real \<Rightarrow> int" where
  "Double_compare d1 d2 = (if d1 < d2 then - 1 else if d2 < d1 then 1 else 0)"

text \<open>
  \<^verbatim>\<open>boundary->emplace_back(boundary_points)\<close> followed by the setters the caller applies to
  \<^verbatim>\<open>boundary->back()\<close>.
\<close>

definition emplace_back :: "STPoint list \<Rightarrow> BoundaryType \<Rightarrow> real \<Rightarrow> StGraphBoundary list
    \<Rightarrow> StGraphBoundary list" where
  "emplace_back boundary_points b_type len boundary =
     boundary @ [\<lparr>points = boundary_points, boundary_type = b_type, characteristic_length = len\<rparr>]"

subsection \<open>The stop builder and the mission-complete builder\<close>

text \<open>Lines 157 to 160: the station of the rear axle centre at the stop line.\<close>

definition stop_rear_center_s :: "Environment \<Rightarrow> SLPoint \<Rightarrow> real" where
  "stop_rear_center_s env sl_point =
     (sl_s sl_point - FLAGS_backward_routing_distance env)
       - FLAGS_decision_valid_stop_range env - front_edge_to_center env"

text \<open>Lines 175 to 184: the four vertices of the stop boundary.\<close>

definition stop_s_min :: "real \<Rightarrow> real" where
  "stop_s_min rear_s = (if rear_s > 0 then rear_s else 0)"

definition stop_s_max :: "real \<Rightarrow> real \<Rightarrow> real \<Rightarrow> real" where
  "stop_s_max s_min planning_distance len = max (s_min + 1) (max planning_distance len)"

definition stop_boundary_points :: "Environment \<Rightarrow> real \<Rightarrow> real \<Rightarrow> real \<Rightarrow> STPoint list" where
  "stop_boundary_points env s_min s_max planning_time =
     [mk_STPoint s_min 0, mk_STPoint s_min planning_time,
      mk_STPoint (s_max + boundary_buffer env) planning_time, mk_STPoint s_max 0]"

text \<open>
  Lines 141 to 195. A failed projection is an error. The test against the length of the
  reference line (line 166) is made only in the \<^verbatim>\<open>else\<close> branch of the test for a negative
  \<open>stop_rear_center_s\<close> (line 161), whose \<^verbatim>\<open>then\<close> branch only logs.
\<close>

definition map_main_decision_stop :: "Environment \<Rightarrow> MainStop \<Rightarrow> ReferenceLine \<Rightarrow> real \<Rightarrow> real
    \<Rightarrow> StGraphBoundary list \<Rightarrow> Status \<times> StGraphBoundary list" where
  "map_main_decision_stop env main_stop reference_line planning_distance planning_time boundary =
     (let map_point = lane_smooth_point env (enforced_line_lane_id main_stop)
                        (enforced_line_distance_s main_stop)
      in case get_point_in_Frenet_frame reference_line map_point of
           None \<Rightarrow> (mk_Status PLANNING_ERROR '''', boundary)
         | Some sl_point \<Rightarrow>
             (let rear_s = stop_rear_center_s env sl_point
              in if \<not> Double_compare rear_s 0 < 0
                    \<and> rear_s \<ge> reference_length reference_line - FLAGS_backward_routing_distance env
                 then (mk_Status PLANNING_SKIP '''', boundary)
                 else
                   (let s_min = stop_s_min rear_s;
                        s_max = stop_s_max s_min planning_distance (reference_length reference_line);
                        boundary_points = stop_boundary_points env s_min s_max planning_time;
                        area = get_area env boundary_points
                    in if Double_compare area 0 \<le> 0
                       then (mk_Status PLANNING_SKIP '''', boundary)
                       else (Status_OK,
                             emplace_back boundary_points STOP (boundary_buffer env) boundary))))"

text \<open>Lines 205 to 230.\<close>

definition map_mission_complete :: "Environment \<Rightarrow> ReferenceLine \<Rightarrow> real \<Rightarrow> real
    \<Rightarrow> StGraphBoundary list \<Rightarrow> Status \<times> StGraphBoundary list" where
  "map_mission_complete env reference_line planning_distance planning_time boundary =
     (let s_min = success_tunnel env;
          s_max = min planning_distance
                    (reference_length reference_line - FLAGS_backward_routing_distance env);
          boundary_points =
            [mk_STPoint s_min 0, mk_STPoint s_max 0,
             mk_STPoint (s_max + boundary_buffer env) planning_time,
             mk_STPoint s_min planning_time];
          area = get_area env boundary_points
      in if Double_compare area 0 \<le> 0
         then (mk_Status PLANNING_SKIP '''', boundary)
         else (Status_OK, emplace_back boundary_points STOP (boundary_buffer env) boundary))"

text \<open>Lines 197 to 203 and 374 to 380: the two builders that do nothing yet.\<close>

definition map_obstacle_with_planning :: "Obstacle \<Rightarrow> PathData \<Rightarrow> real \<Rightarrow> real
    \<Rightarrow> StGraphBoundary list \<Rightarrow> Status \<times> StGraphBoundary list" where
  "map_obstacle_with_planning obstacle path_data planning_distance planning_time boundary =
     (Status_OK, boundary)"

definition map_obstacle_without_trajectory :: "Obstacle \<Rightarrow> PathData \<Rightarrow> real \<Rightarrow> real
    \<Rightarrow> StGraphBoundary list \<Rightarrow> Status \<times> StGraphBoundary list" where
  "map_obstacle_without_trajectory obstacle path_data planning_distance planning_time boundary =
     (Status_OK, boundary)"

subsection \<open>The prediction-trajectory builder\<close>

text \<open>Lines 243 to 248.\<close>

definition follow_distance :: "Environment \<Rightarrow> Obstacle \<Rightarrow> ObjectDecisionType \<Rightarrow> real" where
  "follow_distance env obstacle obj_decision =
     (case obj_decision of
        ObjectFollow distance_s \<Rightarrow>
          max (Speed obstacle * minimal_follow_time env) \<bar>distance_s\<bar> + front_edge_to_center env
      | _ \<Rightarrow> - 1)"

text \<open>
  Lines 276 to 296, the search for the first and the last path point whose vehicle box
  overlaps the obstacle box. \<open>overlap_at k\<close> is \<^verbatim>\<open>check_overlap(adc_path_points[k], ...)\<close>.
  One round of the \<^verbatim>\<open>while\<close> moves \<open>low\<close> up or sets \<open>find_low\<close>, then moves \<open>high\<close>
  down or sets \<open>find_high\<close>.
\<close>

definition advance_low :: "(int \<Rightarrow> bool) \<Rightarrow> int \<Rightarrow> bool \<Rightarrow> int \<times> bool" where
  "advance_low overlap_at low find_low =
     (if \<not> find_low
      then (if \<not> overlap_at low then (low + 1, find_low) else (low, True))
      else (low, find_low))"

definition retreat_high :: "(int \<Rightarrow> bool) \<Rightarrow> int \<Rightarrow> bool \<Rightarrow> int \<times> bool" where
  "retreat_high overlap_at high find_high =
     (if \<not> find_high
      then (if \<not> overlap_at high then (high - 1, find_high) else (high, True))
      else (high, find_high))"

function overlap_search :: "(int \<Rightarrow> bool) \<Rightarrow> int \<Rightarrow> int \<Rightarrow> bool \<Rightarrow> bool
    \<Rightarrow> int \<times> int \<times> bool \<times> bool" where
  "overlap_search overlap_at low high find_low find_high =
     (if low < high
      then (if find_low \<and> find_high then (low, high, find_low, find_high)
            else overlap_search overlap_at
                   (fst (advance_low overlap_at low find_low))
                   (fst (retreat_high overlap_at high find_high))
                   (snd (advance_low overlap_at low find_low))
                   (snd (retreat_high overlap_at high find_high)))
      else (low, high, find_low, find_high))"
  by pat_completeness auto
termination
  by (relation "measure (\<lambda>(overlap_at, low, high, find_low, find_high).
         nat (high - low) + (if find_low then 0 else 1) + (if find_high then 0 else 1))")
     (auto simp: advance_low_def retreat_high_def)

text \<open>Lines 266 to 275: the expanded obstacle box and the search from both ends.\<close>

definition obstacle_box :: "Environment \<Rightarrow> Obstacle \<Rightarrow> TrajectoryPoint \<Rightarrow> Box2d" where
  "obstacle_box env obstacle trajectory_point =
     \<lparr>box_center = (pp_x (path_point trajectory_point), pp_y (path_point trajectory_point)),
      box_heading = pp_theta (path_point trajectory_point),
      box_length = Length obstacle * expending_coeff env,
      box_width = Width obstacle * expending_coeff env\<rparr>"

definition find_low_high :: "Environment \<Rightarrow> PathData \<Rightarrow> Box2d \<Rightarrow> int \<times> int \<times> bool \<times> bool" where
  "find_low_high env adc_path_points obs_box =
     overlap_search
       (\<lambda>k. check_overlap env (adc_path_points ! nat k) obs_box (boundary_buffer env))
       0 (int (length adc_path_points) - 1) False False"

text \<open>
  Lines 327 to 359: the change of the four boundary points according to the decision, and
  the boundary type. \<open>set_s\<close> and \<open>set_t\<close> are the setters of \<^verbatim>\<open>STPoint\<close> applied to
  \<^verbatim>\<open>boundary_points.at(k)\<close>.
\<close>

definition set_s :: "nat \<Rightarrow> real \<Rightarrow> STPoint list \<Rightarrow> STPoint list" where
  "set_s k v ps = ps[k := (ps ! k)\<lparr>pt_s := v\<rparr>]"

definition set_t :: "nat \<Rightarrow> real \<Rightarrow> STPoint list \<Rightarrow> STPoint list" where
  "set_t k v ps = ps[k := (ps ! k)\<lparr>pt_t := v\<rparr>]"

definition change_boundary :: "ObjectDecisionType \<Rightarrow> real \<Rightarrow> STPoint list
    \<Rightarrow> STPoint list \<times> BoundaryType" where
  "change_boundary obj_decision follow_dist boundary_points =
     (case obj_decision of
        ObjectFollow distance_s \<Rightarrow>
          (let ps1 = set_s 0 (pt_s (boundary_points ! 0) - follow_dist) boundary_points;
               ps2 = set_s 1 (pt_s (ps1 ! 1) - follow_dist) ps1;
               ps3 = set_t 3 (- 1) ps2
           in (ps3, FOLLOW))
      | ObjectYield distance_s \<Rightarrow>
          (let dis = \<bar>distance_s\<bar>;
               ps1 = (if pt_s (boundary_points ! 0) - dis < 0
                      then set_s 0 (max (pt_s (boundary_points ! 0) - 2) 0) boundary_points
                      else set_s 0 (max (pt_s (boundary_points ! 0) - dis) 0) boundary_points);
               ps2 = (if pt_s (ps1 ! 1) - dis < 0
                      then set_s 1 (max (pt_s (ps1 ! 0) - 4) 0) ps1
                      else set_s 1 (max (pt_s (ps1 ! 0) - dis) 0) ps1)
           in (ps2, YIELD))
      | ObjectOvertake distance_s \<Rightarrow>
          (let dis = \<bar>distance_s\<bar>;
               ps1 = set_s 2 (pt_s (boundary_points ! 2) + dis) boundary_points;
               ps2 = set_s 3 (pt_s (ps1 ! 3) + dis) ps1
           in (ps2, UNKNOWN))
      | ObjectOther \<Rightarrow> (boundary_points, UNKNOWN))"

text \<open>
  The variables of \<^verbatim>\<open>map_obstacle_with_prediction_trajectory\<close> that live across the rounds
  of its loops. (\<^verbatim>\<open>boundary_points\<close> is cleared before each use and is local to a round
  here.) \<open>lower_points\<close> and \<open>upper_points\<close> start empty and grow together.
\<close>

record builder_state =
  lower_points :: "STPoint list"
  upper_points :: "STPoint list"
  boundary :: "StGraphBoundary list"
  skip :: bool

text \<open>Lines 261 to 367: the body of the inner loop, for the trajectory point at \<open>j\<close>.\<close>

definition trajectory_point_body :: "Environment \<Rightarrow> Obstacle \<Rightarrow> ObjectDecisionType \<Rightarrow> PathData
    \<Rightarrow> PredictionTrajectory \<Rightarrow> 32 word \<Rightarrow> builder_state \<Rightarrow> builder_state" where
  "trajectory_point_body env obstacle obj_decision adc_path_points trajectory j st =
     (let trajectory_point = trajectory_points trajectory ! unat j;
          trajectory_point_time =
            relative_time trajectory_point + start_timestamp trajectory
              - vehicle_state_timestamp env;
          obs_box = obstacle_box env obstacle trajectory_point;
          (low, high, find_low, find_high) = find_low_high env adc_path_points obs_box;
          st1 = (if find_high \<and> find_low
                 then st\<lparr>lower_points := lower_points st @
                            [mk_STPoint (pp_s (adc_path_points ! nat low) - point_extension env)
                               trajectory_point_time],
                         upper_points := upper_points st @
                            [mk_STPoint (pp_s (adc_path_points ! nat high) + point_extension env)
                               trajectory_point_time]\<rparr>
                 else st)
      in if length (lower_points st1) > 0
         then
           (let buffer = follow_buffer env;
                boundary_points =
                  [mk_STPoint (pt_s (lower_points st1 ! 0) - buffer) (pt_t (lower_points st1 ! 0)),
                   mk_STPoint (pt_s (last (lower_points st1)) - buffer)
                     (pt_t (last (lower_points st1))),
                   mk_STPoint (pt_s (last (upper_points st1)) + buffer + boundary_buffer env)
                     (pt_t (last (upper_points st1))),
                   mk_STPoint (pt_s (upper_points st1 ! 0) + buffer) (pt_t (upper_points st1 ! 0))];
                (changed_points, b_type) =
                  change_boundary obj_decision (follow_distance env obstacle obj_decision)
                    boundary_points;
                area = get_area env changed_points
            in if Double_compare area 0 > 0
               then st1\<lparr>boundary := emplace_back changed_points b_type
                                       (ctor_characteristic_length env) (boundary st1),
                        skip := False\<rparr>
               else st1)
         else st1)"

text \<open>
  Lines 260 to 368: \<^verbatim>\<open>for (uint32_t j = 0; j < trajectory.num_of_points(); ++i)\<close>. The
  increment is applied to the counter \<open>i\<close> of the outer loop; \<open>j\<close> and \<open>trajectory\<close> (a
  reference bound before the loop) are the same in every round.
\<close>

partial_function (option) trajectory_point_loop :: "Environment \<Rightarrow> Obstacle
    \<Rightarrow> ObjectDecisionType \<Rightarrow> PathData \<Rightarrow> PredictionTrajectory \<Rightarrow> 32 word
    \<Rightarrow> 32 word \<times> builder_state \<Rightarrow> (32 word \<times> builder_state) option" where
  "trajectory_point_loop env obstacle obj_decision adc_path_points trajectory j ist =
     (if unat j < length (trajectory_points trajectory)
      then trajectory_point_loop env obstacle obj_decision adc_path_points trajectory j
             (fst ist + 1,
              trajectory_point_body env obstacle obj_decision adc_path_points trajectory j (snd ist))
      else Some ist)"

text \<open>
  Lines 258 to 369: \<^verbatim>\<open>for (uint32_t i = 0; i < prediction_trajectories().size(); ++i)\<close>,
  whose body is the inner loop started at \<open>j = 0\<close>.
\<close>

partial_function (option) trajectory_loop :: "Environment \<Rightarrow> Obstacle \<Rightarrow> ObjectDecisionType
    \<Rightarrow> PathData \<Rightarrow> 32 word \<Rightarrow> builder_state \<Rightarrow> builder_state option" where
  "trajectory_loop env obstacle obj_decision adc_path_points i st =
     (if unat i < length (prediction_trajectories obstacle)
      then Option.bind
             (trajectory_point_loop env obstacle obj_decision adc_path_points
                (prediction_trajectories obstacle ! unat i) 0 (i, st))
             (\<lambda>r. trajectory_loop env obstacle obj_decision adc_path_points (fst r + 1) (snd r))
      else Some st)"

text \<open>
  Lines 232 to 372: both loops from \<open>i = 0\<close> on the empty envelopes, with \<open>skip\<close> set; the
  status is \<^verbatim>\<open>PLANNING_SKIP\<close> if no round has appended a boundary.
\<close>

definition map_obstacle_with_prediction_trajectory :: "Environment \<Rightarrow> Obstacle
    \<Rightarrow> ObjectDecisionType \<Rightarrow> PathData \<Rightarrow> StGraphBoundary list
    \<Rightarrow> (Status \<times> StGraphBoundary list) option" where
  "map_obstacle_with_prediction_trajectory env obstacle obj_decision path_data boundary0 =
     map_option
       (\<lambda>st. (if skip st then mk_Status PLANNING_SKIP ''PLANNING_SKIP'' else Status_OK,
              boundary st))
       (trajectory_loop env obstacle obj_decision path_data 0
          \<lparr>lower_points = [], upper_points = [], boundary = boundary0, skip = True\<rparr>)"

subsection \<open>The mapper\<close>

text \<open>
  How a piece of \<^verbatim>\<open>get_graph_boundary\<close> ends: control goes on to the next statement, or
  the function returns a status.
\<close>

datatype loop_exit = Next | Return Status

text \<open>Lines 80 to 94: the main decision.\<close>

definition map_main_decision :: "Environment \<Rightarrow> MainDecision \<Rightarrow> ReferenceLine \<Rightarrow> real \<Rightarrow> real
    \<Rightarrow> StGraphBoundary list \<Rightarrow> loop_exit \<times> StGraphBoundary list" where
  "map_main_decision env decision reference_line planning_distance planning_time obs_boundary =
     (case decision of
        MainDecisionStop main_stop \<Rightarrow>
          (let (ret, b1) = map_main_decision_stop env main_stop reference_line
                             planning_distance planning_time obs_boundary
           in if ret \<noteq> Status_OK \<and> ret \<noteq> mk_Status PLANNING_SKIP ''''
              then (Return (mk_Status PLANNING_ERROR ''''), b1) else (Next, b1))
      | MainDecisionMissionComplete \<Rightarrow>
          (let (ret, b1) = map_mission_complete env reference_line
                             planning_distance planning_time obs_boundary
           in if ret \<noteq> Status_OK \<and> ret \<noteq> mk_Status PLANNING_SKIP ''''
              then (Return (mk_Status PLANNING_ERROR ''''), b1) else (Next, b1))
      | MainDecisionOther \<Rightarrow> (Next, obs_boundary))"

text \<open>Lines 96 to 108: the loop over the static obstacles.\<close>

fun static_obstacles_loop :: "PathData \<Rightarrow> real \<Rightarrow> real \<Rightarrow> Obstacle option list
    \<Rightarrow> StGraphBoundary list \<Rightarrow> loop_exit \<times> StGraphBoundary list" where
  "static_obstacles_loop path_data planning_distance planning_time [] obs_boundary =
     (Next, obs_boundary)"
| "static_obstacles_loop path_data planning_distance planning_time (None # rest) obs_boundary =
     static_obstacles_loop path_data planning_distance planning_time rest obs_boundary"
| "static_obstacles_loop path_data planning_distance planning_time (Some obs # rest) obs_boundary =
     (let (ret, b1) = map_obstacle_without_trajectory obs path_data planning_distance
                        planning_time obs_boundary
      in if \<not> ok ret then (Return (mk_Status PLANNING_ERROR ''Fail to map static obstacle''), b1)
         else static_obstacles_loop path_data planning_distance planning_time rest b1)"

text \<open>Lines 115 to 136: the loop over the decisions of one dynamic obstacle.\<close>

fun decisions_loop :: "Environment \<Rightarrow> Obstacle \<Rightarrow> PathData \<Rightarrow> real \<Rightarrow> real
    \<Rightarrow> ObjectDecisionType list \<Rightarrow> StGraphBoundary list
    \<Rightarrow> (loop_exit \<times> StGraphBoundary list) option" where
  "decisions_loop env obs path_data planning_distance planning_time [] obs_boundary =
     Some (Next, obs_boundary)"
| "decisions_loop env obs path_data planning_distance planning_time (obj_decision # rest)
     obs_boundary =
     (if has_follow obj_decision
      then (let (ret, b1) = map_obstacle_with_planning obs path_data planning_distance
                              planning_time obs_boundary
            in if \<not> ok ret
               then Some (Return (mk_Status PLANNING_ERROR
                                    ''Fail to map follow dynamic obstacle''), b1)
               else decisions_loop env obs path_data planning_distance planning_time rest b1)
      else if has_overtake obj_decision \<or> has_yield obj_decision
      then (case map_obstacle_with_prediction_trajectory env obs obj_decision path_data
                   obs_boundary of
              None \<Rightarrow> None
            | Some (ret, b1) \<Rightarrow>
                if \<not> ok ret then Some (Return Status_OK, b1)
                else decisions_loop env obs path_data planning_distance planning_time rest b1)
      else decisions_loop env obs path_data planning_distance planning_time rest obs_boundary)"

text \<open>Lines 110 to 137: the loop over the dynamic obstacles.\<close>

fun dynamic_obstacles_loop :: "Environment \<Rightarrow> PathData \<Rightarrow> real \<Rightarrow> real \<Rightarrow> Obstacle option list
    \<Rightarrow> StGraphBoundary list \<Rightarrow> (loop_exit \<times> StGraphBoundary list) option" where
  "dynamic_obstacles_loop env path_data planning_distance planning_time [] obs_boundary =
     Some (Next, obs_boundary)"
| "dynamic_obstacles_loop env path_data planning_distance planning_time (None # rest)
     obs_boundary =
     dynamic_obstacles_loop env path_data planning_distance planning_time rest obs_boundary"
| "dynamic_obstacles_loop env path_data planning_distance planning_time (Some obs # rest)
     obs_boundary =
     (case decisions_loop env obs path_data planning_distance planning_time (Decisions obs)
             obs_boundary of
        None \<Rightarrow> None
      | Some (Return ret, b1) \<Rightarrow> Some (Return ret, b1)
      | Some (Next, b1) \<Rightarrow>
          dynamic_obstacles_loop env path_data planning_distance planning_time rest b1)"

text \<open>
  Lines 77 to 138: what \<^verbatim>\<open>get_graph_boundary\<close> does with the vector \<^verbatim>\<open>obs_boundary\<close> points
  to, once the three checks at its head are passed.
\<close>

definition get_graph_boundary_body :: "Environment \<Rightarrow> DecisionData \<Rightarrow> PathData \<Rightarrow> ReferenceLine
    \<Rightarrow> real \<Rightarrow> real \<Rightarrow> StGraphBoundary list \<Rightarrow> (Status \<times> StGraphBoundary list) option" where
  "get_graph_boundary_body env decision_data path_data reference_line planning_distance
     planning_time obs_boundary =
     (let cleared = [];
          (exit1, b1) = map_main_decision env (main_decision decision_data) reference_line
                          planning_distance planning_time cleared
      in case exit1 of
           Return ret \<Rightarrow> Some (ret, b1)
         | Next \<Rightarrow>
             (case static_obstacles_loop path_data planning_distance planning_time
                     (StaticObstacles decision_data) b1 of
                (Return ret, b2) \<Rightarrow> Some (ret, b2)
              | (Next, b2) \<Rightarrow>
                  (case dynamic_obstacles_loop env path_data planning_distance planning_time
                          (DynamicObstacles decision_data) b2 of
                     None \<Rightarrow> None
                   | Some (Return ret, b3) \<Rightarrow> Some (ret, b3)
                   | Some (Next, b3) \<Rightarrow> Some (Status_OK, b3))))"

text \<open>
  Lines 51 to 139. \<open>obs_boundary\<close> is the pointer argument: \<open>None\<close> is \<^verbatim>\<open>nullptr\<close>,
  \<open>Some v\<close> points to the vector \<open>v\<close>. The first check is \<^verbatim>\<open>if (obs_boundary)\<close>, which is
  true of a pointer that is not null. A call that returns gives its status and the
  vector the pointer then points to; \<^verbatim>\<open>obs_boundary->clear()\<close> through a null pointer is
  the fault \<open>NullDereference\<close>; \<open>None\<close> is a call that never returns.
\<close>

datatype fault = NullDereference

definition get_graph_boundary :: "Environment \<Rightarrow> DecisionData \<Rightarrow> PathData \<Rightarrow> ReferenceLine
    \<Rightarrow> real \<Rightarrow> real \<Rightarrow> StGraphBoundary list option
    \<Rightarrow> (fault + Status \<times> StGraphBoundary list option) option" where
  "get_graph_boundary env decision_data path_data reference_line planning_distance
     planning_time obs_boundary =
     (if obs_boundary \<noteq> None
      then Some (Inr (mk_Status PLANNING_ERROR ''obs_boundary is NULL.'', obs_boundary))
      else if planning_time < 0
      then Some (Inr (mk_Status PLANNING_ERROR ''Fail to get params since planning_time < 0.'',
                      obs_boundary))
      else if length path_data < 2
      then Some (Inr (mk_Status PLANNING_ERROR
                        ''Fail to get params because of too few path points'', obs_boundary))
      else (case obs_boundary of
              None \<Rightarrow> Some (Inl NullDereference)
            | Some v \<Rightarrow>
                map_option (\<lambda>r. Inr (fst r, Some (snd r)))
                  (get_graph_boundary_body env decision_data path_data reference_line
                     planning_distance planning_time v)))"

subsection \<open>Concrete inputs\<close>

text \<open>
  The inputs the concrete runs below use. The environment needs a value for each
  parameter: \<open>fan_area\<close> stands in for \<^verbatim>\<open>get_area\<close> (half the absolute value of the summed
  cross products of the vertex fan around the first vertex, so a polygon whose vertices
  share one time has area zero) and \<open>sample_overlap\<close> for \<^verbatim>\<open>check_overlap\<close> (the path
  point lies within half the box length plus the buffer of the box centre, along \<open>x\<close>).
  The map puts the point of a lane at arc length \<open>d\<close> at \<open>(d, 0)\<close>, and the reference
  line of \<open>sample_line\<close> projects \<open>(x, y)\<close> to station \<open>x\<close>.
\<close>

fun fan_cross :: "STPoint \<Rightarrow> STPoint list \<Rightarrow> real" where
  "fan_cross p0 (p1 # p2 # ps) =
     ((pt_s p1 - pt_s p0) * (pt_t p2 - pt_t p0) - (pt_s p2 - pt_s p0) * (pt_t p1 - pt_t p0))
       + fan_cross p0 (p2 # ps)"
| "fan_cross p0 ps = 0"

definition fan_area :: "STPoint list \<Rightarrow> real" where
  "fan_area ps = (case ps of [] \<Rightarrow> 0 | p0 # rest \<Rightarrow> \<bar>fan_cross p0 rest\<bar> / 2)"

definition sample_overlap :: "PathPoint \<Rightarrow> Box2d \<Rightarrow> real \<Rightarrow> bool" where
  "sample_overlap p box buffer =
     (\<bar>pp_x p - fst (box_center box)\<bar> \<le> box_length box / 2 + buffer)"

definition sample_env :: Environment where
  "sample_env =
     \<lparr>FLAGS_backward_routing_distance = 5, FLAGS_decision_valid_stop_range = 1,
      front_edge_to_center = 1, boundary_buffer = 1, follow_buffer = 1, point_extension = 1,
      expending_coeff = 1, minimal_follow_time = 2, success_tunnel = 10,
      vehicle_state_timestamp = 0, ctor_characteristic_length = 1,
      lane_smooth_point = (\<lambda>lane distance_s. (distance_s, 0)),
      get_area = fan_area, check_overlap = sample_overlap\<rparr>"

definition sample_line :: "real \<Rightarrow> ReferenceLine" where
  "sample_line len =
     \<lparr>get_point_in_Frenet_frame = (\<lambda>p. Some \<lparr>sl_s = fst p, sl_l = snd p\<rparr>),
      reference_length = len\<rparr>"

definition sample_stop :: "real \<Rightarrow> MainStop" where
  "sample_stop d = \<lparr>enforced_line_lane_id = ''lane'', enforced_line_distance_s = d\<rparr>"

definition path_point_at :: "real \<Rightarrow> PathPoint" where
  "path_point_at d = \<lparr>pp_x = d, pp_y = 0, pp_theta = 0, pp_s = d\<rparr>"

text \<open>Five path points, at stations 0, 10, 20, 30 and 40.\<close>

definition sample_path :: PathData where
  "sample_path = map path_point_at [0, 10, 20, 30, 40]"

text \<open>One predicted pose, at \<open>x = 20\<close>, two seconds after the trajectory starts.\<close>

definition sample_trajectory :: PredictionTrajectory where
  "sample_trajectory =
     \<lparr>start_timestamp = 0,
      trajectory_points = [\<lparr>path_point = path_point_at 20, relative_time = 2\<rparr>]\<rparr>"

text \<open>An obstacle 24 long: its box overlaps the path points at 10, 20 and 30.\<close>

definition sample_obstacle :: "PredictionTrajectory list \<Rightarrow> ObjectDecisionType list
    \<Rightarrow> Obstacle" where
  "sample_obstacle trajectories decisions =
     \<lparr>obstacle_id = ''obstacle'', Speed = 3, Length = 24, Width = 2,
      prediction_trajectories = trajectories, Decisions = decisions\<rparr>"

text \<open>
  The state of the builder's loops after one sample at time 1, with lower station 9 and
  upper station 31.
\<close>

definition earlier_sample :: "StGraphBoundary list \<Rightarrow> builder_state" where
  "earlier_sample b =
     \<lparr>lower_points = [mk_STPoint 9 1], upper_points = [mk_STPoint 31 1], boundary = b,
      skip = True\<rparr>"

definition sample_scene :: "Obstacle option list \<Rightarrow> DecisionData" where
  "sample_scene dynamic_obstacles =
     \<lparr>main_decision = MainDecisionOther, StaticObstacles = [],
      DynamicObstacles = dynamic_obstacles\<rparr>"

text \<open>What a builder has added to the output vector: the part after the old contents.\<close>

definition appended :: "StGraphBoundary list \<Rightarrow> StGraphBoundary list \<Rightarrow> StGraphBoundary list" where
  "appended before after = drop (length before) after"



section \<open>Properties of the loops\<close>

lemmas sample_defs =
  sample_env_def sample_line_def sample_stop_def path_point_at_def sample_path_def
  sample_trajectory_def sample_obstacle_def earlier_sample_def sample_scene_def fan_area_def
  sample_overlap_def

lemmas stop_defs =
  map_main_decision_stop_def stop_rear_center_s_def Double_compare_def stop_s_min_def
  stop_s_max_def stop_boundary_points_def emplace_back_def

lemmas body_defs =
  trajectory_point_body_def find_low_high_def obstacle_box_def advance_low_def retreat_high_def
  change_boundary_def set_s_def set_t_def follow_distance_def Double_compare_def
  emplace_back_def

lemma appended_append [simp]: "appended b (b @ xs) = xs"
  by (simp add: appended_def)

lemma appended_same [simp]: "appended b b = []"
  by (simp add: appended_def)

subsection \<open>The overlap search\<close>

text \<open>
  When the search finds both ends, \<open>low\<close> is below \<open>high\<close> and both are indices of path
  points: the reads \<^verbatim>\<open>adc_path_points[low]\<close> and \<^verbatim>\<open>adc_path_points[high]\<close> of lines 299 and
  302 are in range. The two envelopes have the same length after every round, so the reads
  of \<open>upper_points\<close> under the test of \<open>lower_points\<close> are in range too.
\<close>

lemma overlap_search_found:
  "overlap_search overlap_at low high find_low find_high = (l, h, True, True)
   \<Longrightarrow> low \<le> l \<and> h \<le> high \<and> (l < h \<or> (find_low \<and> find_high \<and> l = low \<and> h = high))"
proof (induction overlap_at low high find_low find_high rule: overlap_search.induct)
  case (1 overlap_at low high find_low find_high)
  show ?case
  proof (cases "low < high \<and> \<not> (find_low \<and> find_high)")
    case True
    with "1.prems" have rec: "overlap_search overlap_at
        (fst (advance_low overlap_at low find_low))
        (fst (retreat_high overlap_at high find_high))
        (snd (advance_low overlap_at low find_low))
        (snd (retreat_high overlap_at high find_high)) = (l, h, True, True)"
      by (simp split: if_splits)
    from True have a: "low < high" and b: "\<not> (find_low \<and> find_high)" by simp_all
    from "1.IH"[OF a b rec] True show ?thesis
      by (auto simp: advance_low_def retreat_high_def split: if_splits)
  next
    case False
    with "1.prems" show ?thesis by (auto split: if_splits)
  qed
qed

lemma find_low_high_in_range:
  assumes "find_low_high env adc_path_points obs_box = (low, high, True, True)"
  shows "0 \<le> low \<and> low < high \<and> high < int (length adc_path_points)"
  using overlap_search_found[OF assms[unfolded find_low_high_def]] by auto

lemma envelopes_grow_together:
  "length (lower_points st) = length (upper_points st)
   \<Longrightarrow> length (lower_points (trajectory_point_body env obstacle obj_decision path trajectory j st))
       = length (upper_points (trajectory_point_body env obstacle obj_decision path trajectory j st))"
  by (auto simp: trajectory_point_body_def Let_def split: prod.splits if_splits)

subsection \<open>The loops of the prediction-trajectory builder\<close>

lemma trajectory_point_loop_returns:
  assumes "trajectory_point_loop env obstacle obj_decision adc trajectory j ist = Some r"
  shows "\<not> unat j < length (trajectory_points trajectory) \<and> r = ist"
proof (rule trajectory_point_loop.raw_induct
    [where P = "\<lambda>env ob d adc tr j (ist :: 32 word \<times> builder_state) r.
                  \<not> unat j < length (trajectory_points tr) \<and> r = ist",
      OF _ assms])
  fix loop env ob d adc tr j ist r
  assume IH: "\<And>env ob d adc tr j ist r. loop env ob d adc tr j ist = Some r
      \<Longrightarrow> \<not> unat j < length (trajectory_points tr) \<and> r = ist"
    and step: "(if unat (j::32 word) < length (trajectory_points tr)
      then loop env ob d adc tr j (fst ist + 1, trajectory_point_body env ob d adc tr j (snd ist))
      else Some ist) = Some r"
  show "\<not> unat j < length (trajectory_points tr) \<and> r = ist"
  proof (cases "unat j < length (trajectory_points tr)")
    case True
    with step have "loop env ob d adc tr j
        (fst ist + 1, trajectory_point_body env ob d adc tr j (snd ist)) = Some r"
      by simp
    from IH[OF this] True show ?thesis by simp
  next
    case False
    with step show ?thesis by simp
  qed
qed

lemma trajectory_point_loop_diverges:
  assumes "unat j < length (trajectory_points trajectory)"
  shows "trajectory_point_loop env obstacle obj_decision adc trajectory j ist = None"
proof (cases "trajectory_point_loop env obstacle obj_decision adc trajectory j ist")
  case None
  then show ?thesis .
next
  case (Some r)
  from trajectory_point_loop_returns[OF this] assms show ?thesis by simp
qed

lemma trajectory_loop_returns:
  assumes "trajectory_loop env obstacle obj_decision adc i st = Some r"
  shows "r = st"
proof (rule trajectory_loop.raw_induct
    [where P = "\<lambda>env ob d adc i (st :: builder_state) r. r = st", OF _ assms])
  fix loop env ob d adc i st r
  assume IH: "\<And>env ob d adc i st r. loop env ob d adc i st = Some r \<Longrightarrow> r = st"
    and step: "(if unat (i::32 word) < length (prediction_trajectories ob)
      then Option.bind
             (trajectory_point_loop env ob d adc (prediction_trajectories ob ! unat i) 0 (i, st))
             (\<lambda>r. loop env ob d adc (fst r + 1) (snd r))
      else Some st) = Some r"
  show "r = st"
  proof (cases "unat i < length (prediction_trajectories ob)")
    case True
    with step obtain m where
      m: "trajectory_point_loop env ob d adc (prediction_trajectories ob ! unat i) 0 (i, st) = Some m"
      and l: "loop env ob d adc (fst m + 1) (snd m) = Some r"
      by (auto simp: bind_eq_Some_conv)
    from trajectory_point_loop_returns[OF m] have "m = (i, st)" by simp
    with IH[OF l] show ?thesis by simp
  next
    case False
    with step show ?thesis by simp
  qed
qed

lemma trajectory_loop_diverges:
  assumes "unat i < length (prediction_trajectories obstacle)"
    and "trajectory_points (prediction_trajectories obstacle ! unat i) \<noteq> []"
  shows "trajectory_loop env obstacle obj_decision adc i st = None"
  using assms by (subst trajectory_loop.simps) (simp add: trajectory_point_loop_diverges)

lemma trajectory_loop_no_trajectory:
  assumes "prediction_trajectories obstacle = []"
  shows "trajectory_loop env obstacle obj_decision adc i st = Some st"
  using assms by (subst trajectory_loop.simps) simp

text \<open>
  Whenever the builder returns, its loops have run no round of the inner body: it returns
  \<^verbatim>\<open>PLANNING_SKIP\<close> and the output vector is as it was.
\<close>

lemma builder_returns:
  assumes "map_obstacle_with_prediction_trajectory env obstacle obj_decision path b = Some (ret, b1)"
  shows "ret = mk_Status PLANNING_SKIP ''PLANNING_SKIP'' \<and> b1 = b"
proof -
  from assms obtain st where
    run: "trajectory_loop env obstacle obj_decision path 0
            \<lparr>lower_points = [], upper_points = [], boundary = b, skip = True\<rparr> = Some st"
    and res: "ret = (if skip st then mk_Status PLANNING_SKIP ''PLANNING_SKIP'' else Status_OK)"
             "b1 = boundary st"
    by (auto simp: map_obstacle_with_prediction_trajectory_def)
  from trajectory_loop_returns[OF run] res show ?thesis by simp
qed

lemma builder_no_trajectory:
  assumes "prediction_trajectories obstacle = []"
  shows "map_obstacle_with_prediction_trajectory env obstacle obj_decision path b
         = Some (mk_Status PLANNING_SKIP ''PLANNING_SKIP'', b)"
  by (simp add: map_obstacle_with_prediction_trajectory_def trajectory_loop_no_trajectory[OF assms])

lemma builder_diverges:
  assumes "prediction_trajectories obstacle \<noteq> []"
    and "trajectory_points (prediction_trajectories obstacle ! 0) \<noteq> []"
  shows "map_obstacle_with_prediction_trajectory env obstacle obj_decision path b = None"
proof -
  have "trajectory_loop env obstacle obj_decision path 0
          \<lparr>lower_points = [], upper_points = [], boundary = b, skip = True\<rparr> = None"
    using assms by (intro trajectory_loop_diverges) simp_all
  then show ?thesis by (simp add: map_obstacle_with_prediction_trajectory_def)
qed

subsection \<open>The loops of the mapper\<close>

lemma static_obstacles_loop_next:
  "static_obstacles_loop path_data pd pt obstacles b = (Next, b)"
proof (induction obstacles)
  case Nil
  show ?case by simp
next
  case (Cons o_opt rest)
  then show ?case
    by (cases o_opt) (simp_all add: map_obstacle_without_trajectory_def ok_def Status_OK_def)
qed

lemma decisions_loop_append:
  "decisions_loop env obs path pd pt (xs @ ys) b =
     (case decisions_loop env obs path pd pt xs b of
        Some (Next, b1) \<Rightarrow> decisions_loop env obs path pd pt ys b1
      | r \<Rightarrow> r)"
proof (induction xs arbitrary: b)
  case Nil
  show ?case by simp
next
  case (Cons d xs)
  show ?case
    by (simp add: Cons.IH map_obstacle_with_planning_def ok_def Status_OK_def
        split: option.splits prod.splits)
qed

lemma dynamic_obstacles_loop_append:
  "dynamic_obstacles_loop env path pd pt (xs @ ys) b =
     (case dynamic_obstacles_loop env path pd pt xs b of
        Some (Next, b1) \<Rightarrow> dynamic_obstacles_loop env path pd pt ys b1
      | r \<Rightarrow> r)"
proof (induction xs arbitrary: b)
  case Nil
  show ?case by simp
next
  case (Cons o_opt xs)
  show ?case
  proof (cases o_opt)
    case None
    then show ?thesis by (simp add: Cons.IH)
  next
    case (Some obs)
    then show ?thesis
      by (simp add: Cons.IH split: option.splits prod.splits loop_exit.splits)
  qed
qed

lemma decisions_loop_skip:
  assumes "has_overtake d \<or> has_yield d"
    and "map_obstacle_with_prediction_trajectory env obs d path b = Some (ret, b1)"
    and "\<not> ok ret"
  shows "decisions_loop env obs path pd pt (d # rest) b = Some (Return Status_OK, b1)"
  using assms by (cases d) simp_all

lemma sample_obstacle_sel [simp]:
  "prediction_trajectories (sample_obstacle trajectories decisions) = trajectories"
  "Decisions (sample_obstacle trajectories decisions) = decisions"
  by (simp_all add: sample_obstacle_def)

lemma sample_scene_sel [simp]:
  "main_decision (sample_scene obstacles) = MainDecisionOther"
  "StaticObstacles (sample_scene obstacles) = []"
  "DynamicObstacles (sample_scene obstacles) = obstacles"
  by (simp_all add: sample_scene_def)

subsection \<open>What a builder adds\<close>

text \<open>
  Each of the stop builder, the mission-complete builder and one round of the inner loop of
  the prediction-trajectory builder leaves the old contents of the output vector in place,
  and what it adds has passed the area test.
\<close>

lemma stop_builder_appends:
  "snd (map_main_decision_stop env main_stop reference_line planning_distance planning_time b)
     = b @ appended b (snd (map_main_decision_stop env main_stop reference_line
                              planning_distance planning_time b))
   \<and> (\<forall>x \<in> set (appended b (snd (map_main_decision_stop env main_stop reference_line
                              planning_distance planning_time b))).
         0 < get_area env (points x))"
  by (auto simp: map_main_decision_stop_def Let_def emplace_back_def Double_compare_def
      split: option.splits if_splits)

lemma mission_builder_appends:
  "snd (map_mission_complete env reference_line planning_distance planning_time b)
     = b @ appended b (snd (map_mission_complete env reference_line planning_distance
                              planning_time b))
   \<and> (\<forall>x \<in> set (appended b (snd (map_mission_complete env reference_line planning_distance
                              planning_time b))).
         0 < get_area env (points x))"
  by (auto simp: map_mission_complete_def Let_def emplace_back_def Double_compare_def
      split: if_splits)

lemma body_appends:
  "boundary (trajectory_point_body env obstacle obj_decision path trajectory j st)
     = boundary st @ appended (boundary st)
         (boundary (trajectory_point_body env obstacle obj_decision path trajectory j st))
   \<and> (\<forall>x \<in> set (appended (boundary st)
         (boundary (trajectory_point_body env obstacle obj_decision path trajectory j st))).
         0 < get_area env (points x))"
  by (auto simp: trajectory_point_body_def Let_def emplace_back_def Double_compare_def
      split: prod.splits if_splits)

text \<open>
  The boundary type the prediction-trajectory builder computes for each kind of decision:
  the Overtake branch (lines 355 to 359) assigns none, so \<open>b_type\<close> keeps its initial value.
\<close>

lemma change_boundary_type:
  "snd (change_boundary obj_decision follow_dist ps) =
     (case obj_decision of ObjectFollow d \<Rightarrow> FOLLOW | ObjectYield d \<Rightarrow> YIELD
      | ObjectOvertake d \<Rightarrow> UNKNOWN | ObjectOther \<Rightarrow> UNKNOWN)"
  by (simp add: change_boundary_def Let_def split: ObjectDecisionType.splits)

subsection \<open>The rounds of the inner loop\<close>










lemma trajectory_point_loop_unroll:
  assumes "unat j < length (trajectory_points trajectory)"
  shows "trajectory_point_loop env obstacle obj_decision path trajectory j (i, st)
         = trajectory_point_loop env obstacle obj_decision path trajectory j
             (i + of_nat n,
              (trajectory_point_body env obstacle obj_decision path trajectory j ^^ n) st)"
proof (induction n arbitrary: i st)
  case 0
  show ?case by simp
next
  case (Suc n)
  have "trajectory_point_loop env obstacle obj_decision path trajectory j (i, st)
        = trajectory_point_loop env obstacle obj_decision path trajectory j
            (i + 1, trajectory_point_body env obstacle obj_decision path trajectory j st)"
    using assms by (subst trajectory_point_loop.simps) simp
  also have "\<dots> = trajectory_point_loop env obstacle obj_decision path trajectory j
            (i + 1 + of_nat n,
             (trajectory_point_body env obstacle obj_decision path trajectory j ^^ n)
               (trajectory_point_body env obstacle obj_decision path trajectory j st))"
    by (rule Suc.IH)
  also have "\<dots> = trajectory_point_loop env obstacle obj_decision path trajectory j
            (i + of_nat (Suc n),
             (trajectory_point_body env obstacle obj_decision path trajectory j ^^ Suc n) st)"
    by (simp add: funpow_swap1 add.assoc)
  finally show ?case .
qed

subsection \<open>Concrete runs\<close>





lemma sample_stop_50:
  "map_main_decision_stop sample_env (sample_stop 50) (sample_line 100) 80 8 [] =
     (Status_OK,
      [\<lparr>points = [mk_STPoint 43 0, mk_STPoint 43 8, mk_STPoint 101 8, mk_STPoint 100 0],
        boundary_type = STOP, characteristic_length = 1\<rparr>])"
  by (simp add: stop_defs sample_defs mk_STPoint_def)

lemma sample_stop_6:
  "map_main_decision_stop sample_env (sample_stop 6) (sample_line 2) 1 8 [] =
     (Status_OK,
      [\<lparr>points = [mk_STPoint 0 0, mk_STPoint 0 8, mk_STPoint 3 8, mk_STPoint 2 0],
        boundary_type = STOP, characteristic_length = 1\<rparr>])"
  by (simp add: stop_defs sample_defs mk_STPoint_def)

lemma sample_mission:
  "map_mission_complete sample_env (sample_line 100) 80 8 [] =
     (Status_OK,
      [\<lparr>points = [mk_STPoint 10 0, mk_STPoint 80 0, mk_STPoint 81 8, mk_STPoint 10 8],
        boundary_type = STOP, characteristic_length = 1\<rparr>])"
  by (simp add: map_mission_complete_def Double_compare_def emplace_back_def sample_defs
      mk_STPoint_def)

lemma sample_yield_body:
  "boundary (trajectory_point_body sample_env
       (sample_obstacle [sample_trajectory] [ObjectYield 3]) (ObjectYield 3) sample_path
       sample_trajectory 0 (earlier_sample []))
   = [\<lparr>points = [mk_STPoint 5 1, mk_STPoint 2 2, mk_STPoint 33 2, mk_STPoint 32 1],
       boundary_type = YIELD, characteristic_length = 1\<rparr>]"
  by (simp add: body_defs sample_defs mk_STPoint_def)

section \<open>The claims\<close>

subsection \<open>C1: the checks at the head of the mapper\<close>

text \<open>
  C1 says that a call with an output vector, a planning time that is not negative and at
  least two path points passes the checks, and that every other call is rejected. The
  first check of the source, \<^verbatim>\<open>if (obs_boundary)\<close>, rejects the pointers that are not null:
  every call that is given an output vector returns \<^verbatim>\<open>PLANNING_ERROR\<close> with the message
  "obs_boundary is NULL.", whatever the planning time and the path are, and leaves the
  vector as it was.
\<close>

theorem get_graph_boundary_rejects_every_vector:
  "get_graph_boundary env decision_data path_data reference_line planning_distance planning_time
     (Some v)
   = Some (Inr (mk_Status PLANNING_ERROR ''obs_boundary is NULL.'', Some v))"
  by (simp add: get_graph_boundary_def)

text \<open>
  With a null pointer the other two checks run, and a call that passes them goes on to
  \<^verbatim>\<open>obs_boundary->clear()\<close>.
\<close>

lemma get_graph_boundary_null:
  "get_graph_boundary env decision_data path_data reference_line planning_distance planning_time
     None
   = (if planning_time < 0
      then Some (Inr (mk_Status PLANNING_ERROR ''Fail to get params since planning_time < 0.'',
                      None))
      else if length path_data < 2
      then Some (Inr (mk_Status PLANNING_ERROR
                        ''Fail to get params because of too few path points'', None))
      else Some (Inl NullDereference))"
  by (simp add: get_graph_boundary_def)

text \<open>So no call of the mapper returns OK.\<close>

lemma get_graph_boundary_never_ok:
  "get_graph_boundary env decision_data path_data reference_line planning_distance planning_time
     obs_boundary \<noteq> Some (Inr (Status_OK, v))"
  by (cases obs_boundary) (simp_all add: get_graph_boundary_def mk_Status_def Status_OK_def)

subsection \<open>C2: termination\<close>

text \<open>
  C2 says that the mapper terminates and that the sample loop of the prediction-trajectory
  builder visits each trajectory point at most once. The inner loop increments \<open>i\<close>, not
  \<open>j\<close>: on a trajectory with a point it stays at the point \<open>j = 0\<close> for ever. For the
  sample obstacle, with one trajectory of one point and a Yield decision, the builder
  never returns, and neither does the part of the mapper behind the checks on a scene
  with this obstacle.
\<close>

theorem sample_loop_never_returns:
  "map_obstacle_with_prediction_trajectory sample_env
     (sample_obstacle [sample_trajectory] [ObjectYield 3]) (ObjectYield 3) sample_path [] = None
   \<and> get_graph_boundary_body sample_env
       (sample_scene [Some (sample_obstacle [sample_trajectory] [ObjectYield 3])])
       sample_path (sample_line 100) 80 8 [] = None"
proof -
  have "map_obstacle_with_prediction_trajectory sample_env
     (sample_obstacle [sample_trajectory] [ObjectYield 3]) (ObjectYield 3) sample_path [] = None"
    by (rule builder_diverges) (simp_all add: sample_trajectory_def)
  then show ?thesis
    by (simp add: get_graph_boundary_body_def map_main_decision_def)
qed

subsection \<open>C3: two yielding obstacles, the first of which fails\<close>

text \<open>
  C3 says that in a scene with two dynamic obstacles, each with a Yield decision, where
  mapping the first obstacle fails, \<^verbatim>\<open>get_graph_boundary\<close> returns OK and no boundary of the
  second obstacle is in the output. In the scene below mapping the first obstacle, which has
  no predicted trajectory, returns \<^verbatim>\<open>PLANNING_SKIP\<close>; the call, with an output vector, a
  planning time of 8 and five path points, returns \<^verbatim>\<open>PLANNING_ERROR\<close> from the first check
  (see C1), before any obstacle is mapped.
\<close>

theorem two_yield_scene_rejected:
  "map_obstacle_with_prediction_trajectory sample_env (sample_obstacle [] [ObjectYield 3])
     (ObjectYield 3) sample_path []
   = Some (mk_Status PLANNING_SKIP ''PLANNING_SKIP'', [])
   \<and> get_graph_boundary sample_env
       (sample_scene [Some (sample_obstacle [] [ObjectYield 3]),
                      Some (sample_obstacle [sample_trajectory] [ObjectYield 2])])
       sample_path (sample_line 100) 80 8 (Some [])
     = Some (Inr (mk_Status PLANNING_ERROR ''obs_boundary is NULL.'', Some []))
   \<and> status_code (mk_Status PLANNING_ERROR ''obs_boundary is NULL.'') \<noteq> OK"
  by (simp add: builder_no_trajectory get_graph_boundary_def mk_Status_def)

text \<open>
  The code behind the three checks (lines 77 to 138), run on the output vector, does end
  the mapping with OK when the first of two yielding obstacles fails, whatever the second
  one is.
\<close>

lemma two_yield_obstacles_short_circuit:
  assumes dyn: "DynamicObstacles decision_data = [Some obs1, Some obs2]"
    and d1: "Decisions obs1 = [ObjectYield distance1]"
    and d2: "Decisions obs2 = [ObjectYield distance2]"
    and main: "map_main_decision env (main_decision decision_data) reference_line
                 planning_distance planning_time [] = (Next, b0)"
    and first: "map_obstacle_with_prediction_trajectory env obs1 (ObjectYield distance1)
                  path_data b0 = Some (ret, b1)"
    and fails: "\<not> ok ret"
  shows "get_graph_boundary_body env decision_data path_data reference_line planning_distance
           planning_time v = Some (Status_OK, b1)
         \<and> b1 = b0"
proof -
  have "decisions_loop env obs1 path_data planning_distance planning_time (Decisions obs1) b0
        = Some (Return Status_OK, b1)"
    unfolding d1 by (rule decisions_loop_skip[OF _ first fails]) simp
  then have "dynamic_obstacles_loop env path_data planning_distance planning_time
               (DynamicObstacles decision_data) b0 = Some (Return Status_OK, b1)"
    by (simp add: dyn)
  then have "get_graph_boundary_body env decision_data path_data reference_line
               planning_distance planning_time v = Some (Status_OK, b1)"
    by (simp add: get_graph_boundary_body_def main static_obstacles_loop_next)
  moreover from builder_returns[OF first] have "b1 = b0" by simp
  ultimately show ?thesis by simp
qed

lemma sample_two_yield_obstacles:
  "get_graph_boundary_body sample_env
     (sample_scene [Some (sample_obstacle [] [ObjectYield 3]),
                    Some (sample_obstacle [sample_trajectory] [ObjectYield 2])])
     sample_path (sample_line 100) 80 8 [] = Some (Status_OK, [])
   \<and> \<not> ok (mk_Status PLANNING_SKIP ''PLANNING_SKIP'')"
proof -
  have f: "\<not> ok (mk_Status PLANNING_SKIP ''PLANNING_SKIP'')"
    by (simp add: ok_def mk_Status_def)
  have m: "map_main_decision sample_env
      (main_decision (sample_scene [Some (sample_obstacle [] [ObjectYield 3]),
                    Some (sample_obstacle [sample_trajectory] [ObjectYield 2])]))
      (sample_line 100) 80 8 [] = (Next, [])"
    by (simp add: map_main_decision_def)
  have b: "map_obstacle_with_prediction_trajectory sample_env (sample_obstacle [] [ObjectYield 3])
     (ObjectYield 3) sample_path [] = Some (mk_Status PLANNING_SKIP ''PLANNING_SKIP'', [])"
    by (simp add: builder_no_trajectory)
  from two_yield_obstacles_short_circuit[OF _ _ _ m b f, of "sample_obstacle [sample_trajectory] [ObjectYield 2]" 2 "[]"] f
  show ?thesis by simp
qed

subsection \<open>C4: emitted boundaries have positive area\<close>

text \<open>
  C4: every boundary that the stop builder, the mission-complete builder or the
  prediction-trajectory builder appends to the output vector has an area, as \<^verbatim>\<open>get_area\<close>
  computes it from the points of the boundary, that is strictly positive; the old
  contents of the vector stay. For the prediction-trajectory builder this is stated for
  each round of its inner loop, and for its result when it returns.
\<close>

theorem emitted_boundaries_positive_area:
  "(snd (map_main_decision_stop env main_stop reference_line planning_distance planning_time b)
      = b @ appended b (snd (map_main_decision_stop env main_stop reference_line
                               planning_distance planning_time b))
    \<and> (\<forall>x \<in> set (appended b (snd (map_main_decision_stop env main_stop reference_line
                               planning_distance planning_time b))).
          0 < get_area env (points x)))
   \<and> (snd (map_mission_complete env reference_line planning_distance planning_time b)
        = b @ appended b (snd (map_mission_complete env reference_line planning_distance
                                 planning_time b))
      \<and> (\<forall>x \<in> set (appended b (snd (map_mission_complete env reference_line
                                 planning_distance planning_time b))).
            0 < get_area env (points x)))
   \<and> (boundary (trajectory_point_body env obstacle obj_decision path trajectory j st)
        = boundary st @ appended (boundary st)
            (boundary (trajectory_point_body env obstacle obj_decision path trajectory j st))
      \<and> (\<forall>x \<in> set (appended (boundary st)
            (boundary (trajectory_point_body env obstacle obj_decision path trajectory j st))).
            0 < get_area env (points x)))
   \<and> (\<forall>ret b1. map_obstacle_with_prediction_trajectory env obstacle obj_decision path b
                   = Some (ret, b1)
        \<longrightarrow> b1 = b @ appended b b1 \<and> (\<forall>x \<in> set (appended b b1). 0 < get_area env (points x)))"
proof -
  have builder: "\<forall>ret b1. map_obstacle_with_prediction_trajectory env obstacle obj_decision path b
                   = Some (ret, b1)
        \<longrightarrow> b1 = b @ appended b b1 \<and> (\<forall>x \<in> set (appended b b1). 0 < get_area env (points x))"
  proof (intro allI impI)
    fix ret b1
    assume "map_obstacle_with_prediction_trajectory env obstacle obj_decision path b
            = Some (ret, b1)"
    from builder_returns[OF this] have "b1 = b" by simp
    then show "b1 = b @ appended b b1 \<and> (\<forall>x \<in> set (appended b b1). 0 < get_area env (points x))"
      by simp
  qed
  show ?thesis
    by (rule conjI[OF stop_builder_appends
          conjI[OF mission_builder_appends conjI[OF body_appends builder]]])
qed

theorem emitted_boundaries_positive_area_witness:
  "appended [] (snd (map_main_decision_stop sample_env (sample_stop 50) (sample_line 100)
                       80 8 []))
     = [\<lparr>points = [mk_STPoint 43 0, mk_STPoint 43 8, mk_STPoint 101 8, mk_STPoint 100 0],
         boundary_type = STOP, characteristic_length = 1\<rparr>]
   \<and> 0 < get_area sample_env
           [mk_STPoint 43 0, mk_STPoint 43 8, mk_STPoint 101 8, mk_STPoint 100 0]
   \<and> appended [] (snd (map_mission_complete sample_env (sample_line 100) 80 8 []))
     = [\<lparr>points = [mk_STPoint 10 0, mk_STPoint 80 0, mk_STPoint 81 8, mk_STPoint 10 8],
         boundary_type = STOP, characteristic_length = 1\<rparr>]
   \<and> 0 < get_area sample_env
           [mk_STPoint 10 0, mk_STPoint 80 0, mk_STPoint 81 8, mk_STPoint 10 8]
   \<and> appended (boundary (earlier_sample []))
       (boundary (trajectory_point_body sample_env
          (sample_obstacle [sample_trajectory] [ObjectYield 3]) (ObjectYield 3) sample_path
          sample_trajectory 0 (earlier_sample [])))
     = [\<lparr>points = [mk_STPoint 5 1, mk_STPoint 2 2, mk_STPoint 33 2, mk_STPoint 32 1],
         boundary_type = YIELD, characteristic_length = 1\<rparr>]
   \<and> 0 < get_area sample_env
           [mk_STPoint 5 1, mk_STPoint 2 2, mk_STPoint 33 2, mk_STPoint 32 1]
   \<and> map_obstacle_with_prediction_trajectory sample_env (sample_obstacle [] [ObjectYield 3])
       (ObjectYield 3) sample_path []
     = Some (mk_Status PLANNING_SKIP ''PLANNING_SKIP'', [])"
proof -
  have e: "boundary (earlier_sample []) = []"
    by (simp add: earlier_sample_def)
  from emitted_boundaries_positive_area[of sample_env "sample_stop 50" "sample_line 100" 80 8
      "[]" "sample_obstacle [sample_trajectory] [ObjectYield 3]" "ObjectYield 3" sample_path
      sample_trajectory 0 "earlier_sample []"]
  show ?thesis
    by (simp add: sample_stop_50 sample_mission sample_yield_body e appended_def
        builder_no_trajectory)
qed

subsection \<open>C5: the Yield adjustment\<close>

text \<open>
  C5 says that both lower vertices are recomputed from the station of \<open>v0\<close> before the
  adjustment, with the same test and the same offsets. As amended: \<open>v0.s\<close> becomes
  \<open>max (v0.s - 2) 0\<close> if \<open>v0.s - dis < 0\<close> and \<open>max (v0.s - dis) 0\<close> otherwise; \<open>v1.s\<close> is then
  computed from the station of \<open>v0\<close> after its adjustment, under a test on the station of
  \<open>v1\<close> itself: it becomes \<open>max (v0.s - 4) 0\<close> if \<open>v1.s - dis < 0\<close> and \<open>max (v0.s - dis) 0\<close>
  otherwise. The other two vertices, all four times and the type \<^verbatim>\<open>YIELD\<close> are as the claim
  has them.
\<close>

theorem yield_adjustment:
  "let dis = \<bar>distance_s\<bar>;
       v0 = (if pt_s p0 - dis < 0 then max (pt_s p0 - 2) 0 else max (pt_s p0 - dis) 0);
       v1 = (if pt_s p1 - dis < 0 then max (v0 - 4) 0 else max (v0 - dis) 0)
   in change_boundary (ObjectYield distance_s) follow_dist [p0, p1, p2, p3]
      = ([p0\<lparr>pt_s := v0\<rparr>, p1\<lparr>pt_s := v1\<rparr>, p2, p3], YIELD)"
  by (simp add: change_boundary_def set_s_def Let_def)

theorem yield_adjustment_witness:
  "change_boundary (ObjectYield 12) (- 1)
     [mk_STPoint 10 1, mk_STPoint 30 2, mk_STPoint 33 2, mk_STPoint 32 1]
   = ([mk_STPoint 8 1, mk_STPoint 0 2, mk_STPoint 33 2, mk_STPoint 32 1], YIELD)"
  using yield_adjustment[of 12 "mk_STPoint 10 1" "mk_STPoint 30 2" "- 1" "mk_STPoint 33 2"
      "mk_STPoint 32 1"]
  by (simp add: Let_def mk_STPoint_def)

text \<open>
  The claim as stated fails for \<open>v0.s = v1.s = 10\<close> and \<open>dis = 3\<close>: the source gives
  \<open>v1.s = 4\<close>, the claim \<open>max (10 - 3) 0 = 7\<close>.
\<close>

theorem yield_adjustment_counterexample:
  "pt_s (fst (change_boundary (ObjectYield 3) (- 1)
            [mk_STPoint 10 1, mk_STPoint 10 2, mk_STPoint 33 2, mk_STPoint 32 1]) ! 1) = 4
   \<and> (if pt_s (mk_STPoint 10 1) - \<bar>3\<bar> < 0 then max (pt_s (mk_STPoint 10 1) - 2) 0
       else max (pt_s (mk_STPoint 10 1) - \<bar>3\<bar>) 0) = 7"
  by (simp add: change_boundary_def set_s_def mk_STPoint_def)

subsection \<open>C6: the type of a boundary of the prediction-trajectory builder\<close>



subsection \<open>C7: the boundary of the stop builder\<close>

text \<open>
  C7: when the projection of the stop line succeeds, so that \<open>stop_rear_center_s\<close> is
  defined, and the stop builder does not skip, it returns OK and appends exactly one
  boundary, tagged \<^verbatim>\<open>STOP\<close>, with the vertices \<open>(s_min, 0)\<close>, \<open>(s_min, planning_time)\<close>,
  \<open>(s_max + boundary_buffer, planning_time)\<close>, \<open>(s_max, 0)\<close>, where
  \<open>s_min = max stop_rear_center_s 0\<close> and
  \<open>s_max = max (s_min + 1) (max planning_distance length)\<close>. For a stop line at station 50,
  a backward routing distance of 5, a valid stop range of 1 and a front overhang of 1,
  \<open>s_min = 43\<close> and \<open>s_max = max 44 (max planning_distance length)\<close>.
\<close>

theorem stop_builder_boundary:
  assumes proj: "get_point_in_Frenet_frame reference_line
             (lane_smooth_point env (enforced_line_lane_id main_stop)
                (enforced_line_distance_s main_stop)) = Some sl_point"
    and not_skip: "status_code (fst (map_main_decision_stop env main_stop reference_line
             planning_distance planning_time b)) \<noteq> PLANNING_SKIP"
  shows "let s_min = max (stop_rear_center_s env sl_point) 0;
             s_max = max (s_min + 1) (max planning_distance (reference_length reference_line))
         in map_main_decision_stop env main_stop reference_line planning_distance planning_time b
            = (Status_OK,
               b @ [\<lparr>points = [mk_STPoint s_min 0, mk_STPoint s_min planning_time,
                               mk_STPoint (s_max + boundary_buffer env) planning_time,
                               mk_STPoint s_max 0],
                      boundary_type = STOP,
                      characteristic_length = boundary_buffer env\<rparr>])
            \<and> (sl_s sl_point = 50 \<and> FLAGS_backward_routing_distance env = 5
                 \<and> FLAGS_decision_valid_stop_range env = 1 \<and> front_edge_to_center env = 1
               \<longrightarrow> s_min = 43
                   \<and> s_max = max 44 (max planning_distance (reference_length reference_line)))"
proof -
  have smin: "stop_s_min (stop_rear_center_s env sl_point) = max (stop_rear_center_s env sl_point) 0"
    by (simp add: stop_s_min_def max_def)
  have run: "map_main_decision_stop env main_stop reference_line planning_distance planning_time b
      = (Status_OK,
         emplace_back
           (stop_boundary_points env (stop_s_min (stop_rear_center_s env sl_point))
              (stop_s_max (stop_s_min (stop_rear_center_s env sl_point)) planning_distance
                 (reference_length reference_line)) planning_time)
           STOP (boundary_buffer env) b)"
    using not_skip
    by (auto simp: map_main_decision_stop_def proj Let_def mk_Status_def split: if_splits)
  have scen: "sl_s sl_point = 50 \<Longrightarrow> FLAGS_backward_routing_distance env = 5
      \<Longrightarrow> FLAGS_decision_valid_stop_range env = 1 \<Longrightarrow> front_edge_to_center env = 1
      \<Longrightarrow> stop_rear_center_s env sl_point = 43"
    by (simp add: stop_rear_center_s_def)
  show ?thesis
    unfolding Let_def
  proof (intro conjI impI)
    show "map_main_decision_stop env main_stop reference_line planning_distance planning_time b =
      (Status_OK,
       b @ [\<lparr>points =
                 [mk_STPoint (max (stop_rear_center_s env sl_point) 0) 0,
                  mk_STPoint (max (stop_rear_center_s env sl_point) 0) planning_time,
                  mk_STPoint
                   (max (max (stop_rear_center_s env sl_point) 0 + 1)
                     (max planning_distance (reference_length reference_line)) +
                    boundary_buffer env)
                   planning_time,
                  mk_STPoint
                   (max (max (stop_rear_center_s env sl_point) 0 + 1)
                     (max planning_distance (reference_length reference_line)))
                   0],
                 boundary_type = STOP, characteristic_length = boundary_buffer env\<rparr>])"
      by (simp add: run smin emplace_back_def stop_boundary_points_def stop_s_max_def)
  next
    assume a: "sl_s sl_point = 50 \<and> FLAGS_backward_routing_distance env = 5 \<and>
      FLAGS_decision_valid_stop_range env = 1 \<and> front_edge_to_center env = 1"
    then have r: "stop_rear_center_s env sl_point = 43" using scen by blast
    show "max (stop_rear_center_s env sl_point) 0 = 43" by (simp add: r)
    show "max (max (stop_rear_center_s env sl_point) 0 + 1)
       (max planning_distance (reference_length reference_line)) =
      max 44 (max planning_distance (reference_length reference_line))"
      by (simp add: r)
  qed
qed

theorem stop_builder_boundary_witness:
  "get_point_in_Frenet_frame (sample_line 100)
     (lane_smooth_point sample_env (enforced_line_lane_id (sample_stop 50))
        (enforced_line_distance_s (sample_stop 50))) = Some \<lparr>sl_s = 50, sl_l = 0\<rparr>
   \<and> status_code (fst (map_main_decision_stop sample_env (sample_stop 50) (sample_line 100)
        80 8 [])) \<noteq> PLANNING_SKIP
   \<and> map_main_decision_stop sample_env (sample_stop 50) (sample_line 100) 80 8 [] =
       (Status_OK,
        [\<lparr>points = [mk_STPoint 43 0, mk_STPoint 43 8, mk_STPoint 101 8, mk_STPoint 100 0],
          boundary_type = STOP, characteristic_length = 1\<rparr>])"
proof -
  have proj: "get_point_in_Frenet_frame (sample_line 100)
     (lane_smooth_point sample_env (enforced_line_lane_id (sample_stop 50))
        (enforced_line_distance_s (sample_stop 50))) = Some \<lparr>sl_s = 50, sl_l = 0\<rparr>"
    by (simp add: sample_defs)
  have ns: "status_code (fst (map_main_decision_stop sample_env (sample_stop 50) (sample_line 100)
        80 8 [])) \<noteq> PLANNING_SKIP"
    by (simp add: sample_stop_50 Status_OK_def)
  from stop_builder_boundary[OF proj ns] proj ns show ?thesis
    by (simp add: Let_def stop_rear_center_s_def sample_env_def sample_line_def)
qed

subsection \<open>C8: the stop line beyond the horizon\<close>

text \<open>
  C8 says that the stop builder skips whenever
  \<open>stop_rear_center_s \<ge> length - backward_routing_distance\<close>, whatever the sign of
  \<open>stop_rear_center_s\<close>. The source makes this test in the \<^verbatim>\<open>else\<close> branch of the test for a
  negative \<open>stop_rear_center_s\<close>. As amended: when \<open>stop_rear_center_s\<close> is not negative and
  \<open>stop_rear_center_s \<ge> length - backward_routing_distance\<close>, the result is
  \<^verbatim>\<open>PLANNING_SKIP\<close> and nothing is appended.
\<close>

theorem stop_skip_beyond_horizon:
  assumes "get_point_in_Frenet_frame reference_line
             (lane_smooth_point env (enforced_line_lane_id main_stop)
                (enforced_line_distance_s main_stop)) = Some sl_point"
    and "0 \<le> stop_rear_center_s env sl_point"
    and "stop_rear_center_s env sl_point
           \<ge> reference_length reference_line - FLAGS_backward_routing_distance env"
  shows "map_main_decision_stop env main_stop reference_line planning_distance planning_time b
         = (mk_Status PLANNING_SKIP '''', b)"
  using assms by (simp add: map_main_decision_stop_def Double_compare_def Let_def)

theorem stop_skip_beyond_horizon_witness:
  "get_point_in_Frenet_frame (sample_line 100)
     (lane_smooth_point sample_env (enforced_line_lane_id (sample_stop 105))
        (enforced_line_distance_s (sample_stop 105))) = Some \<lparr>sl_s = 105, sl_l = 0\<rparr>
   \<and> 0 \<le> stop_rear_center_s sample_env \<lparr>sl_s = 105, sl_l = 0\<rparr>
   \<and> stop_rear_center_s sample_env \<lparr>sl_s = 105, sl_l = 0\<rparr>
       \<ge> reference_length (sample_line 100) - FLAGS_backward_routing_distance sample_env
   \<and> map_main_decision_stop sample_env (sample_stop 105) (sample_line 100) 80 8 []
       = (mk_Status PLANNING_SKIP '''', [])"
proof -
  have p: "get_point_in_Frenet_frame (sample_line 100)
     (lane_smooth_point sample_env (enforced_line_lane_id (sample_stop 105))
        (enforced_line_distance_s (sample_stop 105))) = Some \<lparr>sl_s = 105, sl_l = 0\<rparr>"
    by (simp add: sample_defs)
  have n: "0 \<le> stop_rear_center_s sample_env \<lparr>sl_s = 105, sl_l = 0\<rparr>"
    by (simp add: sample_defs stop_rear_center_s_def)
  have h: "stop_rear_center_s sample_env \<lparr>sl_s = 105, sl_l = 0\<rparr>
       \<ge> reference_length (sample_line 100) - FLAGS_backward_routing_distance sample_env"
    by (simp add: sample_defs stop_rear_center_s_def)
  from stop_skip_beyond_horizon[OF p n h] p n h show ?thesis by simp
qed

text \<open>
  The claim as stated fails for a stop line at station 6 on a reference line of length 2:
  \<open>stop_rear_center_s = -1 \<ge> 2 - 5\<close>, and the builder returns OK and appends a boundary
  that starts at station 0.
\<close>

theorem stop_skip_counterexample:
  "get_point_in_Frenet_frame (sample_line 2)
     (lane_smooth_point sample_env (enforced_line_lane_id (sample_stop 6))
        (enforced_line_distance_s (sample_stop 6))) = Some \<lparr>sl_s = 6, sl_l = 0\<rparr>
   \<and> stop_rear_center_s sample_env \<lparr>sl_s = 6, sl_l = 0\<rparr> = - 1
   \<and> stop_rear_center_s sample_env \<lparr>sl_s = 6, sl_l = 0\<rparr>
       \<ge> reference_length (sample_line 2) - FLAGS_backward_routing_distance sample_env
   \<and> map_main_decision_stop sample_env (sample_stop 6) (sample_line 2) 1 8 [] =
       (Status_OK,
        [\<lparr>points = [mk_STPoint 0 0, mk_STPoint 0 8, mk_STPoint 3 8, mk_STPoint 2 0],
          boundary_type = STOP, characteristic_length = 1\<rparr>])"
  by (simp add: sample_stop_6) (simp add: sample_defs stop_rear_center_s_def)

subsection \<open>C9: the type of the mission-complete boundary\<close>

text \<open>
  C9: every boundary the mission-complete builder appends is tagged \<^verbatim>\<open>STOP\<close>.
\<close>

theorem mission_complete_tagged_stop:
  "map_mission_complete env reference_line planning_distance planning_time b = (ret, b1)
   \<Longrightarrow> b1 = b @ appended b b1 \<and> (\<forall>x \<in> set (appended b b1). boundary_type x = STOP)"
  by (auto simp: map_mission_complete_def Let_def emplace_back_def split: if_splits)

theorem mission_complete_tagged_stop_witness:
  "appended [] (snd (map_mission_complete sample_env (sample_line 100) 80 8 [])) =
     [\<lparr>points = [mk_STPoint 10 0, mk_STPoint 80 0, mk_STPoint 81 8, mk_STPoint 10 8],
       boundary_type = STOP, characteristic_length = 1\<rparr>]
   \<and> boundary_type (hd (appended [] (snd (map_mission_complete sample_env (sample_line 100)
        80 8 [])))) = STOP"
  using mission_complete_tagged_stop[OF sample_mission]
  by (simp add: sample_mission appended_def)

subsection \<open>C10: a skip of the prediction-trajectory builder ends the mapping\<close>

text \<open>
  C10: whenever the prediction-trajectory builder returns \<^verbatim>\<open>PLANNING_SKIP\<close> for a Yield or
  Overtake decision, \<^verbatim>\<open>get_graph_boundary\<close> returns OK at once, without processing the
  decisions and the dynamic obstacles that remain. The builder is called in the code behind
  the three checks (lines 77 to 138), and the theorem is about that code, at any position
  of its two loops: if the main decision does not end the call, the obstacles before \<open>obs\<close>
  and the decisions of \<open>obs\<close> before \<open>obj_decision\<close> are passed, and the builder returns
  \<^verbatim>\<open>PLANNING_SKIP\<close> for \<open>obj_decision\<close>, the result is OK with the output vector as the
  builder left it, whatever \<open>decisions_after\<close> and \<open>obstacles_after\<close> are.
\<close>

theorem benign_skip_short_circuit:
  assumes dyn: "DynamicObstacles decision_data = obstacles_before @ Some obs # obstacles_after"
    and dec: "Decisions obs = decisions_before @ obj_decision # decisions_after"
    and kind: "has_overtake obj_decision \<or> has_yield obj_decision"
    and main: "map_main_decision env (main_decision decision_data) reference_line
                 planning_distance planning_time [] = (Next, b0)"
    and before_obs: "dynamic_obstacles_loop env path_data planning_distance planning_time
                       obstacles_before b0 = Some (Next, b1)"
    and before_dec: "decisions_loop env obs path_data planning_distance planning_time
                       decisions_before b1 = Some (Next, b2)"
    and skipped: "map_obstacle_with_prediction_trajectory env obs obj_decision path_data b2
                    = Some (ret, b3)"
    and code: "status_code ret = PLANNING_SKIP"
  shows "get_graph_boundary_body env decision_data path_data reference_line planning_distance
           planning_time v = Some (Status_OK, b3)"
proof -
  from code have nok: "\<not> ok ret" by (simp add: ok_def)
  have at_decision: "decisions_loop env obs path_data planning_distance planning_time
        (obj_decision # decisions_after) b2 = Some (Return Status_OK, b3)"
    by (rule decisions_loop_skip[OF kind skipped nok])
  have "decisions_loop env obs path_data planning_distance planning_time (Decisions obs) b1
        = Some (Return Status_OK, b3)"
    unfolding dec
    by (simp add: decisions_loop_append before_dec at_decision del: decisions_loop.simps)
  then have at_obstacle: "dynamic_obstacles_loop env path_data planning_distance planning_time
               (Some obs # obstacles_after) b1 = Some (Return Status_OK, b3)"
    by simp
  have "dynamic_obstacles_loop env path_data planning_distance planning_time
               (DynamicObstacles decision_data) b0 = Some (Return Status_OK, b3)"
    unfolding dyn
    by (simp add: dynamic_obstacles_loop_append before_obs at_obstacle
        del: dynamic_obstacles_loop.simps)
  then show ?thesis
    by (simp add: get_graph_boundary_body_def main static_obstacles_loop_next)
qed

theorem benign_skip_short_circuit_witness:
  "get_graph_boundary_body sample_env
     (sample_scene [None,
        Some (sample_obstacle [] [ObjectFollow 1, ObjectOvertake 2, ObjectYield 3]),
        Some (sample_obstacle [sample_trajectory] [ObjectYield 2])])
     sample_path (sample_line 100) 80 8 [] = Some (Status_OK, [])
   \<and> status_code (mk_Status PLANNING_SKIP ''PLANNING_SKIP'') = PLANNING_SKIP"
proof -
  let ?obs = "sample_obstacle [] [ObjectFollow 1, ObjectOvertake 2, ObjectYield 3]"
  let ?after = "[Some (sample_obstacle [sample_trajectory] [ObjectYield 2])]"
  let ?scene = "sample_scene ([None] @ Some ?obs # ?after)"
  have dyn: "DynamicObstacles ?scene = [None] @ Some ?obs # ?after" by simp
  have dec: "Decisions ?obs = [ObjectFollow 1] @ ObjectOvertake 2 # [ObjectYield 3]" by simp
  have kind: "has_overtake (ObjectOvertake 2) \<or> has_yield (ObjectOvertake 2)" by simp
  have main: "map_main_decision sample_env (main_decision ?scene) (sample_line 100) 80 8 []
              = (Next, [])"
    by (simp add: map_main_decision_def)
  have bo: "dynamic_obstacles_loop sample_env sample_path 80 8 [None] [] = Some (Next, [])"
    by simp
  have bd: "decisions_loop sample_env ?obs sample_path 80 8 [ObjectFollow 1] []
            = Some (Next, [])"
    by (simp add: map_obstacle_with_planning_def ok_def Status_OK_def)
  have sk: "map_obstacle_with_prediction_trajectory sample_env ?obs (ObjectOvertake 2)
              sample_path [] = Some (mk_Status PLANNING_SKIP ''PLANNING_SKIP'', [])"
    by (simp add: builder_no_trajectory)
  have code: "status_code (mk_Status PLANNING_SKIP ''PLANNING_SKIP'') = PLANNING_SKIP"
    by (simp add: mk_Status_def)
  from benign_skip_short_circuit[OF dyn dec kind main bo bd sk code, of "[]"] code
  show ?thesis by simp
qed

end
